theory Spec2Isabelle
  imports Main
begin

section \<open>Strings\<close>

text \<open>
  Python strings are modelled as \<open>string\<close> (lists of \<open>char\<close>), one \<open>char\<close> per code
  point; the model therefore covers the code points below 256. A newline is written
  \<open>\<newline>\<close> inside a literal.

  \<open>is_space\<close> is the whitespace class shared by \<^verbatim>\<open>str.strip()\<close>, \<^verbatim>\<open>str.isspace()\<close> and the
  regular-expression classes \<^verbatim>\<open>\s\<close> / \<^verbatim>\<open>\S\<close> on \<^verbatim>\<open>str\<close> patterns: the code points
  9-13 (tab, newline, vertical tab, form feed, carriage return), 28-31, 32 (space),
  133 and 160.
\<close>

definition is_space :: "char \<Rightarrow> bool" where
  "is_space c =
     (let n = (of_char c :: nat)
      in (9 \<le> n \<and> n \<le> 13) \<or> (28 \<le> n \<and> n \<le> 32) \<or> n = 133 \<or> n = 160)"

text \<open>\<open>strip_prefix p s\<close>: what follows the literal \<open>p\<close> when \<open>s\<close> starts with it.\<close>

fun strip_prefix :: "string \<Rightarrow> string \<Rightarrow> string option" where
  "strip_prefix [] s = Some s"
| "strip_prefix (p # ps) [] = None"
| "strip_prefix (p # ps) (c # cs) = (if p = c then strip_prefix ps cs else None)"

section \<open>The code sanitizer (rag_pipeline.py, \<open>_IMPORT_RE\<close> and \<open>_sanitize_code\<close>)\<close>

text \<open>
  \<^verbatim>\<open>_IMPORT_RE = re.compile(r"^\s*(import |from \S+ import )", re.MULTILINE)\<close>

  \<open>match_import s\<close> matches the part of the pattern after the anchor at the head of
  \<open>s\<close> and returns the text after the match. The matcher backtracks, but here
  backtracking never finds anything the greedy run misses: after a shorter \<^verbatim>\<open>\s*\<close> the
  next character is whitespace and can start neither \<^verbatim>\<open>import\<close> nor \<^verbatim>\<open>from\<close>, and after
  a shorter \<^verbatim>\<open>\S+\<close> the next character is not whitespace and cannot be the space that
  must follow. The alternatives are tried in the order they are written.
\<close>

definition match_import :: "string \<Rightarrow> string option" where
  "match_import s =
     (let t = dropWhile is_space s in
      case strip_prefix ''import '' t of
        Some r \<Rightarrow> Some r
      | None \<Rightarrow>
          (case strip_prefix ''from '' t of
             None \<Rightarrow> None
           | Some u \<Rightarrow>
               if takeWhile (\<lambda>c. \<not> is_space c) u = [] then None
               else strip_prefix '' import '' (dropWhile (\<lambda>c. \<not> is_space c) u)))"

text \<open>
  With \<^verbatim>\<open>re.MULTILINE\<close> the anchor \<^verbatim>\<open>^\<close> holds at the start of the text and right after
  each newline. \<open>prev\<close> is the character before the current position (\<open>None\<close> at the
  start of the text).
\<close>

definition at_line_start :: "char option \<Rightarrow> bool" where
  "at_line_start prev = (prev = None \<or> prev = Some CHR ''\<newline>'')"

lemma strip_prefix_length:
  "strip_prefix p s = Some r \<Longrightarrow> length s = length p + length r"
  by (induction p s rule: strip_prefix.induct) (auto split: if_splits)

lemma match_import_shorter:
  assumes "match_import s = Some r"
  shows "length r < length s"
proof -
  let ?t = "dropWhile is_space s"
  have t: "length ?t \<le> length s"
    by (rule length_dropWhile_le)
  show ?thesis
  proof (cases "strip_prefix ''import '' ?t")
    case (Some r')
    with assms have "r' = r"
      by (simp add: match_import_def)
    with Some have "length ?t = 7 + length r"
      using strip_prefix_length by fastforce
    with t show ?thesis by simp
  next
    case None
    with assms obtain u where u: "strip_prefix ''from '' ?t = Some u"
      and r: "strip_prefix '' import '' (dropWhile (\<lambda>c. \<not> is_space c) u) = Some r"
      by (auto simp: match_import_def split: option.splits if_splits)
    from u have "length ?t = 5 + length u"
      using strip_prefix_length by fastforce
    moreover from r have "length (dropWhile (\<lambda>c. \<not> is_space c) u) = 8 + length r"
      using strip_prefix_length by fastforce
    moreover have "length (dropWhile (\<lambda>c. \<not> is_space c) u) \<le> length u"
      by (rule length_dropWhile_le)
    ultimately show ?thesis using t by simp
  qed
qed

text \<open>
  \<^verbatim>\<open>_IMPORT_RE.sub("", code)\<close>: scan from the left; at a position where the pattern
  matches, drop the matched text and go on after it; elsewhere keep the character
  and move one position on. A match is never empty, so the scan always advances.
\<close>

function import_sub :: "char option \<Rightarrow> string \<Rightarrow> string" where
  "import_sub prev [] = []"
| "import_sub prev (c # cs) =
     (if at_line_start prev then
        (case match_import (c # cs) of
           Some rest \<Rightarrow>
             import_sub (Some (last (take (length (c # cs) - length rest) (c # cs)))) rest
         | None \<Rightarrow> c # import_sub (Some c) cs)
      else c # import_sub (Some c) cs)"
  by pat_completeness auto
termination
  by (relation "measure (\<lambda>(prev, s). length s)") (auto dest: match_import_shorter)

definition sanitize_code :: "string \<Rightarrow> string" where
  "sanitize_code code = import_sub None code"

section \<open>Conversation history (app.py, the \<open>chat_history\<close> loop)\<close>

text \<open>
  An entry of \<^verbatim>\<open>st.session_state.messages\<close>: every entry has a role and a content; the
  entries the application stores for the assistant also carry \<^verbatim>\<open>code\<close> and \<^verbatim>\<open>data\<close>,
  read with \<^verbatim>\<open>.get(key, "")\<close>, so an absent key is \<open>None\<close> here.
\<close>

record chat_msg =
  role :: string
  content :: string
  msg_code :: "string option"
  msg_data :: "string option"

text \<open>
  A turn of the history context. \<^verbatim>\<open>_generate_code\<close> reads \<^verbatim>\<open>turn["question"]\<close>,
  \<^verbatim>\<open>turn["code"]\<close> and \<^verbatim>\<open>turn["answer"]\<close> directly and \<^verbatim>\<open>turn.get("data", "")\<close> with a
  default, so only \<open>data\<close> may be absent.
\<close>

record turn =
  question :: string
  answer :: string
  code :: string
  data :: "string option"

text \<open>\<^verbatim>\<open>d.get(key, "")\<close> on an optional text field.\<close>

definition get_or_empty :: "string option \<Rightarrow> string" where
  "get_or_empty v = (case v of None \<Rightarrow> [] | Some s \<Rightarrow> s)"

definition make_turn :: "chat_msg \<Rightarrow> chat_msg \<Rightarrow> turn" where
  "make_turn u a =
     \<lparr>question = content u, answer = content a,
      code = get_or_empty (msg_code a), data = Some (get_or_empty (msg_data a))\<rparr>"

text \<open>
  The loop \<^verbatim>\<open>while i < len(msgs) - 1\<close> with its index \<open>i\<close> and the list
  \<open>chat_history\<close> it appends to. Both reads \<open>msgs ! i\<close> and \<open>msgs ! (i + 1)\<close> are in
  range under the loop condition.
\<close>

function build_history :: "chat_msg list \<Rightarrow> nat \<Rightarrow> turn list \<Rightarrow> turn list" where
  "build_history msgs i chat_history =
     (if i + 1 < length msgs then
        (if role (msgs ! i) = ''user'' \<and> role (msgs ! (i + 1)) = ''assistant''
         then build_history msgs (i + 2)
                (chat_history @ [make_turn (msgs ! i) (msgs ! (i + 1))])
         else build_history msgs (i + 1) chat_history)
      else chat_history)"
  by pat_completeness auto
termination
  by (relation "measure (\<lambda>(msgs, i, h). length msgs - i)") auto

declare build_history.simps [simp del]

definition distill_history :: "chat_msg list \<Rightarrow> turn list" where
  "distill_history msgs = build_history msgs 0 []"

text \<open>
  The contract in the specification's words: the turns are the adjacent pairs of the
  transcript, in order, whose first message is from the user and whose second is
  from the assistant.
\<close>

definition adjacent_pairs :: "chat_msg list \<Rightarrow> (chat_msg \<times> chat_msg) list" where
  "adjacent_pairs msgs = zip msgs (tl msgs)"

definition is_exchange :: "chat_msg \<times> chat_msg \<Rightarrow> bool" where
  "is_exchange ua = (role (fst ua) = ''user'' \<and> role (snd ua) = ''assistant'')"

definition paired_turns :: "chat_msg list \<Rightarrow> turn list" where
  "paired_turns msgs =
     map (\<lambda>ua. make_turn (fst ua) (snd ua)) (filter is_exchange (adjacent_pairs msgs))"

definition user_msg :: "string \<Rightarrow> chat_msg" where
  "user_msg q = \<lparr>role = ''user'', content = q, msg_code = None, msg_data = None\<rparr>"

definition assistant_msg :: "string \<Rightarrow> string \<Rightarrow> string \<Rightarrow> chat_msg" where
  "assistant_msg a c d =
     \<lparr>role = ''assistant'', content = a, msg_code = Some c, msg_data = Some d\<rparr>"

section \<open>Prompt assembly (rag_pipeline.py, \<open>_generate_code\<close> and \<open>_generate_answer\<close>)\<close>

text \<open>A role-tagged message of a completion request.\<close>

datatype llm_message = Message (msg_role: string) (msg_content: string)

text \<open>\<^verbatim>\<open>CODE_GEN_SYSTEM.format(schema=schema)\<close>: the template with its one field filled in.\<close>

definition CODE_GEN_SYSTEM :: "string \<Rightarrow> string" where
  "CODE_GEN_SYSTEM schema_text =
     ''You are a data analyst. Given the schema below, write '' @
     ''Python/pandas code that answers the user's question.\<newline>'' @
     ''\<newline>'' @
     schema_text @
     ''\<newline>'' @
     ''\<newline>'' @
     ''The DataFrames `clients`, `invoices`, and `line_items` are '' @
     ''already loaded. pandas is available as `pd`, numpy as `np`, and '' @
     ''the `datetime` module is available as `datetime`. Do NOT import '' @
     ''anything or read files.\<newline>'' @
     ''\<newline>'' @
     ''Output ONLY valid Python code (no markdown, no explanations). '' @
     ''Store the final answer in a variable called `result` '' @
     ''(DataFrame, Series, scalar, or string).\<newline>'' @
     ''\<newline>'' @
     ''Key rules:\<newline>'' @
     ''- Use pd.Timestamp for date comparisons.\<newline>'' @
     ''- Line total including tax = quantity * unit_price * (1 + '' @
     ''tax_rate).\<newline>'' @
     ''- Do NOT use print().\<newline>'' @
     ''- If the question asks to \"list\" something, make result a '' @
     ''DataFrame.\<newline>'' @
     ''\<newline>'' @
     ''If conversation history is provided and the user refers to a '' @
     ''previous answer (\"which of those\", \"from them\", etc.), use the '' @
     ''prior context to understand what they mean and write code '' @
     ''accordingly.\<newline>''"

definition ANSWER_GEN_SYSTEM :: string where
  "ANSWER_GEN_SYSTEM =
     ''You are a business data analyst. A code-based retrieval step '' @
     ''already ran that filtered and computed the relevant data for '' @
     ''the user's question. The data below is the result -- trust that '' @
     ''it already reflects any filters (date ranges, regions, etc.) '' @
     ''implied by the question.\<newline>'' @
     ''\<newline>'' @
     ''Answer using ONLY this data. Use markdown tables for tabular '' @
     ''data. Never invent numbers. If the data is empty, say so.\<newline>'' @
     ''\<newline>'' @
     ''If there's conversation history, use it to understand follow-up '' @
     ''references.\<newline>''"

text \<open>
  The body of the loop \<^verbatim>\<open>for turn in history or []\<close> of \<^verbatim>\<open>_generate_code\<close>: the messages
  one turn appends. The preview is cut with \<^verbatim>\<open>preview[:2000]\<close> when it is longer than
  2000 characters, and an empty preview appends nothing.
\<close>

definition turn_messages :: "turn \<Rightarrow> llm_message list" where
  "turn_messages t =
     [Message ''user'' (question t), Message ''assistant'' (code t)] @
     (let preview = get_or_empty (data t) in
      if preview \<noteq> [] then
        [Message ''user''
           (''[Code returned:\<newline>```\<newline>'' @
            (if length preview > 2000
             then take 2000 preview @ ''\<newline>... (truncated)''
             else preview) @
            ''\<newline>```]'')]
      else [])"

primrec history_messages :: "turn list \<Rightarrow> llm_message list" where
  "history_messages [] = []"
| "history_messages (t # ts) = turn_messages t @ history_messages ts"

definition code_gen_messages :: "string \<Rightarrow> string \<Rightarrow> turn list \<Rightarrow> llm_message list" where
  "code_gen_messages schema_text question_text history =
     [Message ''system'' (CODE_GEN_SYSTEM schema_text)] @
     history_messages history @
     [Message ''user'' question_text]"

text \<open>The loop of \<^verbatim>\<open>_generate_answer\<close> appends the question and the answer of each turn.\<close>

primrec answer_history_messages :: "turn list \<Rightarrow> llm_message list" where
  "answer_history_messages [] = []"
| "answer_history_messages (t # ts) =
     [Message ''user'' (question t), Message ''assistant'' (answer t)] @
     answer_history_messages ts"

definition answer_messages :: "string \<Rightarrow> string \<Rightarrow> turn list \<Rightarrow> llm_message list" where
  "answer_messages question_text data_str history =
     [Message ''system'' ANSWER_GEN_SYSTEM] @
     answer_history_messages history @
     [Message ''user''
        (''**Question:** '' @ question_text @
         ''\<newline>\<newline>**Retrieved data:**\<newline>```\<newline>'' @ data_str @
         ''\<newline>```'')]"

text \<open>The corrective prompt \<open>fix_prompt\<close> of \<^verbatim>\<open>ask\<close>.\<close>

definition fix_prompt :: "string \<Rightarrow> string \<Rightarrow> string" where
  "fix_prompt last_error question_text =
     ''The previous code raised an error:\<newline>'' @ last_error @
     ''\<newline>\<newline>Original question: '' @ question_text @
     ''\<newline>\<newline>Please fix the code.''"

subsection \<open>Cleaning the completion\<close>

text \<open>\<^verbatim>\<open>str.strip()\<close>: whitespace removed at both ends.\<close>

definition strip :: "string \<Rightarrow> string" where
  "strip s = rev (dropWhile is_space (rev (dropWhile is_space s)))"

text \<open>The text after the first occurrence of a separator, when there is one.\<close>

fun after_first :: "string \<Rightarrow> string \<Rightarrow> string option" where
  "after_first sep [] = (if sep = [] then Some [] else None)"
| "after_first sep (c # cs) =
     (case strip_prefix sep (c # cs) of
        Some r \<Rightarrow> Some r
      | None \<Rightarrow> after_first sep cs)"

text \<open>
  \<^verbatim>\<open>s.rsplit(sep, 1)[0]\<close>: the text before the last occurrence of the separator, the
  whole text when there is none. The last occurrence is found as the first occurrence
  of the reversed separator in the reversed text.
\<close>

definition before_last :: "string \<Rightarrow> string \<Rightarrow> string" where
  "before_last sep s =
     (case after_first (rev sep) (rev s) of
        Some r \<Rightarrow> rev r
      | None \<Rightarrow> s)"

text \<open>
  \<^verbatim>\<open>except Exception\<close> tells the exceptions that derive from \<^verbatim>\<open>Exception\<close> from the
  others (\<^verbatim>\<open>SystemExit\<close>, \<^verbatim>\<open>KeyboardInterrupt\<close>, \<^verbatim>\<open>GeneratorExit\<close>, a bare
  \<^verbatim>\<open>BaseException\<close>). An exception value is its class, as far as the handler tells, and
  its \<^verbatim>\<open>repr\<close>.
\<close>

datatype exc_class = ExceptionClass | BaseExceptionOnly

datatype pyexc = PyExc (class_of: exc_class) (repr_of: string)

text \<open>
  What can leave \<^verbatim>\<open>ask\<close> as an exception: a failure of the completion service, the
  \<^verbatim>\<open>IndexError\<close> of \<^verbatim>\<open>code.split("\n", 1)[1]\<close> on a fenced completion of one line, and
  an exception of the evaluated code that \<^verbatim>\<open>except Exception\<close> does not catch.
\<close>

datatype error = CompletionError string | IndexError | Uncaught pyexc

text \<open>
  The fence removal of \<^verbatim>\<open>_generate_code\<close>:
  \<^verbatim>\<open>if code.startswith("```"): code = code.split("\n", 1)[1]; code = code.rsplit("```", 1)[0]\<close>
\<close>

definition strip_fences :: "string \<Rightarrow> error + string" where
  "strip_fences text =
     (if take 3 text = ''```'' then
        (case after_first ''\<newline>'' text of
           None \<Rightarrow> Inl IndexError
         | Some rest \<Rightarrow> Inr (before_last ''```'' rest))
      else Inr text)"

section \<open>The execution environment (rag_pipeline.py, \<open>_SAFE_BUILTINS\<close> and \<open>_execute_code\<close>)\<close>

type_synonym addr = nat
type_synonym frame = "string list list"

text \<open>
  The Python values the pipeline tells apart: \<^verbatim>\<open>None\<close>, a string, a DataFrame (a
  reference into the store), a Series, a module (by its name), a builtin (by its
  name), a dictionary given by its items, the module-level dictionary
  \<^verbatim>\<open>_SAFE_BUILTINS\<close> (a reference to the one object), and any other object.
\<close>

datatype pyval =
    PyNone
  | PyStr string
  | DataFrame addr
  | Series "string list"
  | PyModule string
  | PyBuiltin string
  | PyDict "(string \<times> pyval) list"
  | SafeBuiltinsRef
  | PyObject string

text \<open>
  The objects that outlive a call: the DataFrames, each at its address, with
  \<open>next_addr\<close> the next address an allocation takes, and the items of the module-level
  dictionary \<^verbatim>\<open>_SAFE_BUILTINS\<close>, which is created once and is the same object in every
  execution.
\<close>

record heap =
  objs :: "addr \<rightharpoonup> frame"
  next_addr :: addr
  safe_builtins :: "(string \<times> pyval) list"

text \<open>
  The outcome of \<^verbatim>\<open>exec(code, ns)\<close>: it finishes, leaving the namespace it has built, or
  it raises an exception.
\<close>

datatype exec_outcome =
    Finished "string \<rightharpoonup> pyval"
  | Raised pyexc

text \<open>
  What the pipeline calls and does not define: the completion service
  (\<^verbatim>\<open>client.chat.completions.create(...).choices[0].message.content\<close> for a model and a
  list of messages, \<open>Inl\<close> when the call raises); the Python interpreter behind
  \<^verbatim>\<open>exec\<close>, which may change the store; \<^verbatim>\<open>traceback.format_exc()\<close> for the exception
  being handled; \<^verbatim>\<open>hasattr(builtins, name)\<close>; \<^verbatim>\<open>getattr\<close> on a module, by the module's
  name (\<open>None\<close> when the module has no such attribute); the two \<^verbatim>\<open>to_string\<close>
  renderings of pandas; and \<^verbatim>\<open>str\<close>.
\<close>

record env =
  chat_completion :: "string \<Rightarrow> llm_message list \<Rightarrow> error + string"
  py_exec :: "string \<Rightarrow> (string \<rightharpoonup> pyval) \<Rightarrow> heap \<Rightarrow> exec_outcome \<times> heap"
  format_exc :: "pyexc \<Rightarrow> string"
  builtins_hasattr :: "string \<Rightarrow> bool"
  module_getattr :: "string \<Rightarrow> string \<Rightarrow> pyval option"
  df_to_string :: "frame \<Rightarrow> string"
  series_to_string :: "string list \<Rightarrow> string"
  py_str :: "pyval \<Rightarrow> string"

text \<open>The names \<^verbatim>\<open>_SAFE_BUILTINS\<close> enumerates, in the order of the source.\<close>

definition safe_builtin_names :: "string list" where
  "safe_builtin_names =
     [''abs'', ''all'', ''any'', ''bool'', ''dict'', ''enumerate'', ''filter'', ''float'',
      ''frozenset'', ''getattr'', ''hasattr'', ''int'', ''isinstance'', ''issubclass'',
      ''iter'', ''len'', ''list'', ''map'', ''max'', ''min'', ''next'', ''print'', ''range'',
      ''reversed'', ''round'', ''set'', ''slice'', ''sorted'', ''str'', ''sum'', ''tuple'',
      ''type'', ''zip'',
      ''Exception'', ''ValueError'', ''TypeError'', ''KeyError'', ''IndexError'',
      ''AttributeError'', ''ZeroDivisionError'', ''RuntimeError'',
      ''True'', ''False'', ''None'']"

text \<open>
  The items \<^verbatim>\<open>_SAFE_BUILTINS\<close> is created with, when the module is loaded:
  \<^verbatim>\<open>{name: getattr(builtins, name) for name in (...) if hasattr(builtins, name)}\<close>
\<close>

definition SAFE_BUILTINS :: "env \<Rightarrow> (string \<times> pyval) list" where
  "SAFE_BUILTINS e =
     map (\<lambda>name. (name, PyBuiltin name)) (filter (builtins_hasattr e) safe_builtin_names)"

text \<open>
  A pipeline instance: the model identifier, the three loaded datasets
  (\<^verbatim>\<open>self.dfs\<close>, the dictionary \<^verbatim>\<open>load_dataframes\<close> returns with exactly these three keys)
  and the schema text.
\<close>

record datasets =
  clients :: addr
  invoices :: addr
  line_items :: addr

record pipeline =
  model :: string
  dfs :: datasets
  schema :: string

text \<open>
  \<^verbatim>\<open>DataFrame.copy()\<close>: a new object with the rows of the original.
\<close>

definition df_copy :: "heap \<Rightarrow> addr \<Rightarrow> addr \<times> heap" where
  "df_copy h a =
     (next_addr h,
      h\<lparr>objs := (objs h)(next_addr h := objs h a), next_addr := Suc (next_addr h)\<rparr>)"

text \<open>
  The dictionary \<open>ns\<close> of \<^verbatim>\<open>_execute_code\<close>, its three copies made in the order written.
  \<^verbatim>\<open>"__builtins__": _SAFE_BUILTINS\<close> binds the module-level dictionary itself, not a
  copy of it.
\<close>

definition make_namespace :: "pipeline \<Rightarrow> heap \<Rightarrow> (string \<rightharpoonup> pyval) \<times> heap" where
  "make_namespace p h =
     (let (c, h1) = df_copy h (clients (dfs p));
          (i, h2) = df_copy h1 (invoices (dfs p));
          (l, h3) = df_copy h2 (line_items (dfs p))
      in ([''__builtins__'' \<mapsto> SafeBuiltinsRef,
           ''pd'' \<mapsto> PyModule ''pandas'',
           ''np'' \<mapsto> PyModule ''numpy'',
           ''datetime'' \<mapsto> PyModule ''datetime'',
           ''clients'' \<mapsto> DataFrame c,
           ''invoices'' \<mapsto> DataFrame i,
           ''line_items'' \<mapsto> DataFrame l], h3))"

text \<open>
  The state the calls go through: the store, and the record of the calls made to the
  completion service and to \<^verbatim>\<open>exec\<close>, in order.
\<close>

datatype event = CompletionCall "llm_message list" | ExecCall string

record state =
  mem :: heap
  calls :: "event list"

text \<open>
  \<^verbatim>\<open>_execute_code\<close>. The handler \<^verbatim>\<open>except Exception\<close> returns \<^verbatim>\<open>None\<close> and the text of
  \<^verbatim>\<open>traceback.format_exc()\<close>; any other exception leaves the method.
\<close>

definition execute_code ::
  "env \<Rightarrow> pipeline \<Rightarrow> string \<Rightarrow> state \<Rightarrow> (error + pyval \<times> string option) \<times> state" where
  "execute_code e p code_text s =
     (let sanitized = sanitize_code code_text;
          (ns, h1) = make_namespace p (mem s);
          (out, h2) = py_exec e sanitized ns h1;
          s' = \<lparr>mem = h2, calls = calls s @ [ExecCall sanitized]\<rparr>
      in case out of
           Finished ns' \<Rightarrow>
             (Inr (case ns' ''result'' of
                     Some v \<Rightarrow> v
                   | None \<Rightarrow> PyStr ''No `result` variable was set.'', None), s')
         | Raised x \<Rightarrow>
             (case class_of x of
                ExceptionClass \<Rightarrow> (Inr (PyNone, Some (format_exc e x)), s')
              | BaseExceptionOnly \<Rightarrow> (Inl (Uncaught x), s')))"

section \<open>The orchestrator (rag_pipeline.py, \<open>ask\<close>)\<close>

text \<open>
  The completion request of \<^verbatim>\<open>_generate_code\<close> and the cleaning of its answer:
  \<^verbatim>\<open>code = resp.choices[0].message.content.strip()\<close>, then the fence removal.
\<close>

definition completion_code :: "env \<Rightarrow> pipeline \<Rightarrow> llm_message list \<Rightarrow> error + string" where
  "completion_code e p messages =
     (case chat_completion e (model p) messages of
        Inl err \<Rightarrow> Inl err
      | Inr text \<Rightarrow> strip_fences (strip text))"

definition generate_code ::
  "env \<Rightarrow> pipeline \<Rightarrow> string \<Rightarrow> turn list \<Rightarrow> state \<Rightarrow> (error + string) \<times> state" where
  "generate_code e p question_text history s =
     (let messages = code_gen_messages (schema p) question_text history
      in (completion_code e p messages,
          s\<lparr>calls := calls s @ [CompletionCall messages]\<rparr>))"

definition generate_answer ::
  "env \<Rightarrow> pipeline \<Rightarrow> string \<Rightarrow> string \<Rightarrow> turn list \<Rightarrow> state \<Rightarrow> (error + string) \<times> state"
  where
  "generate_answer e p question_text data_str history s =
     (let messages = answer_messages question_text data_str history;
          s' = s\<lparr>calls := calls s @ [CompletionCall messages]\<rparr>
      in case chat_completion e (model p) messages of
           Inl err \<Rightarrow> (Inl err, s')
         | Inr text \<Rightarrow> (Inr (strip text), s'))"

text \<open>
  The rendering of a result: \<^verbatim>\<open>to_string(index=False)\<close> for a DataFrame, \<^verbatim>\<open>to_string()\<close>
  for a Series, \<^verbatim>\<open>str\<close> for anything else. Python has no dangling reference; a
  DataFrame address without rows renders as the empty frame.
\<close>

definition render_result :: "env \<Rightarrow> heap \<Rightarrow> pyval \<Rightarrow> string" where
  "render_result e h v =
     (case v of
        DataFrame a \<Rightarrow> df_to_string e (case objs h a of Some f \<Rightarrow> f | None \<Rightarrow> [])
      | Series x \<Rightarrow> series_to_string e x
      | _ \<Rightarrow> py_str e v)"

record ask_result =
  res_answer :: string
  res_code :: string
  res_data :: string
  res_error :: "string option"

definition apology :: string where
  "apology = ''Sorry, I couldn't retrieve the data. Try rephrasing your question.''"

text \<open>
  The loop \<^verbatim>\<open>for _ in range(max_retries)\<close>, by the number of iterations left, with the
  loop's variables \<open>last_error\<close> and \<open>code\<close>; the equation for 0 is the \<^verbatim>\<open>return\<close> after
  the loop.
\<close>

fun ask_loop ::
  "env \<Rightarrow> pipeline \<Rightarrow> string \<Rightarrow> turn list \<Rightarrow> nat \<Rightarrow> string option \<Rightarrow> string \<Rightarrow> state
   \<Rightarrow> (error + ask_result) \<times> state" where
  "ask_loop e p question_text history 0 last_error code_text s =
     (Inr \<lparr>res_answer = apology, res_code = code_text, res_data = [],
           res_error = last_error\<rparr>, s)"
| "ask_loop e p question_text history (Suc n) last_error code_text s =
     (case generate_code e p
             (case last_error of
                None \<Rightarrow> question_text
              | Some err \<Rightarrow> fix_prompt err question_text)
             history s of
        (Inl err, s1) \<Rightarrow> (Inl err, s1)
      | (Inr code', s1) \<Rightarrow>
          (case execute_code e p code' s1 of
             (Inl err, s2) \<Rightarrow> (Inl err, s2)
           | (Inr (result, Some trace), s2) \<Rightarrow>
               ask_loop e p question_text history n (Some trace) code' s2
           | (Inr (result, None), s2) \<Rightarrow>
               (let data_str = render_result e (mem s2) result in
                case generate_answer e p question_text data_str history s2 of
                  (Inl err, s3) \<Rightarrow> (Inl err, s3)
                | (Inr answer_text, s3) \<Rightarrow>
                    (Inr \<lparr>res_answer = answer_text, res_code = code',
                          res_data = data_str, res_error = None\<rparr>, s3))))"

text \<open>
  \<^verbatim>\<open>ask(question, history=None, max_retries=2)\<close>: \<^verbatim>\<open>history or []\<close>, and
  \<^verbatim>\<open>range(max_retries)\<close> is empty for a budget of 0 or less.
\<close>

definition history_or_empty :: "turn list option \<Rightarrow> turn list" where
  "history_or_empty history = (case history of None \<Rightarrow> [] | Some h \<Rightarrow> h)"

definition ask ::
  "env \<Rightarrow> pipeline \<Rightarrow> string \<Rightarrow> turn list option \<Rightarrow> int \<Rightarrow> state
   \<Rightarrow> (error + ask_result) \<times> state" where
  "ask e p question_text history max_retries s =
     ask_loop e p question_text (history_or_empty history) (nat max_retries) None [] s"

section \<open>Notions the properties are stated with\<close>

text \<open>
  A text has no import match when the pattern matches at none of its line starts;
  \<open>prev\<close> is the character before the text.
\<close>

fun no_import_match :: "char option \<Rightarrow> string \<Rightarrow> bool" where
  "no_import_match prev [] = True"
| "no_import_match prev (c # cs) =
     ((\<not> at_line_start prev \<or> match_import (c # cs) = None) \<and> no_import_match (Some c) cs)"

text \<open>
  The canonical datasets lie below the allocation pointer of the store, so that an
  allocation never takes the address of one of them.
\<close>

definition heap_ok :: "pipeline \<Rightarrow> heap \<Rightarrow> bool" where
  "heap_ok p h =
     (clients (dfs p) < next_addr h \<and> invoices (dfs p) < next_addr h \<and>
      line_items (dfs p) < next_addr h)"

text \<open>The DataFrames a namespace binds.\<close>

definition refs :: "(string \<rightharpoonup> pyval) \<Rightarrow> addr set" where
  "refs ns = {a. DataFrame a \<in> ran ns}"

text \<open>
  One run of the interpreter mutates only the DataFrames of its namespace when every
  other DataFrame of the store it started in has its rows afterwards, and the
  allocation pointer has not moved back.
\<close>

definition mutates_only_namespace ::
  "env \<Rightarrow> string \<Rightarrow> (string \<rightharpoonup> pyval) \<Rightarrow> heap \<Rightarrow> bool" where
  "mutates_only_namespace e code_text ns h =
     ((\<forall>a. a < next_addr h \<and> a \<notin> refs ns \<longrightarrow>
           objs (snd (py_exec e code_text ns h)) a = objs h a) \<and>
      next_addr h \<le> next_addr (snd (py_exec e code_text ns h)))"


text \<open>
  The rows an execution starting in store \<open>h\<close> finds under a dataset name of its
  namespace.
\<close>

definition dataset_view :: "pipeline \<Rightarrow> heap \<Rightarrow> string \<Rightarrow> frame option" where
  "dataset_view p h name =
     (case fst (make_namespace p h) name of
        Some (DataFrame a) \<Rightarrow> objs (snd (make_namespace p h)) a
      | _ \<Rightarrow> None)"

text \<open>
  How the evaluated code comes by a value. A name is looked up in the namespace and
  then in the dictionary bound to \<^verbatim>\<open>__builtins__\<close>; \<open>None\<close> is Python's \<^verbatim>\<open>NameError\<close>.
  \<^verbatim>\<open>v.attr\<close> on a module is the module's attribute, and \<^verbatim>\<open>v[key]\<close> on a dictionary is
  its item.
\<close>

definition getitem_value :: "heap \<Rightarrow> pyval \<Rightarrow> string \<Rightarrow> pyval option" where
  "getitem_value h v key =
     (case v of
        PyDict items \<Rightarrow> map_of items key
      | SafeBuiltinsRef \<Rightarrow> map_of (safe_builtins h) key
      | _ \<Rightarrow> None)"

definition getattr_value :: "env \<Rightarrow> pyval \<Rightarrow> string \<Rightarrow> pyval option" where
  "getattr_value e v attr =
     (case v of
        PyModule m \<Rightarrow> module_getattr e m attr
      | _ \<Rightarrow> None)"

definition lookup_name :: "(string \<rightharpoonup> pyval) \<Rightarrow> heap \<Rightarrow> string \<Rightarrow> pyval option" where
  "lookup_name ns h name =
     (case ns name of
        Some v \<Rightarrow> Some v
      | None \<Rightarrow>
          (case ns ''__builtins__'' of
             Some d \<Rightarrow> getitem_value h d name
           | None \<Rightarrow> None))"

text \<open>The value of the expression \<^verbatim>\<open>name.attr[key]\<close>.\<close>

definition attr_item :: "env \<Rightarrow> (string \<rightharpoonup> pyval) \<Rightarrow> heap \<Rightarrow> string \<Rightarrow> string \<Rightarrow> string
    \<Rightarrow> pyval option" where
  "attr_item e ns h name attr key =
     (case lookup_name ns h name of
        None \<Rightarrow> None
      | Some v \<Rightarrow>
          (case getattr_value e v attr of
             None \<Rightarrow> None
           | Some d \<Rightarrow> getitem_value h d key))"

text \<open>\<^verbatim>\<open>d[key] = v\<close> on the items of a dictionary.\<close>

fun dict_set :: "string \<Rightarrow> pyval \<Rightarrow> (string \<times> pyval) list \<Rightarrow> (string \<times> pyval) list" where
  "dict_set key v [] = [(key, v)]"
| "dict_set key v (item # items) =
     (if fst item = key then (key, v) # items else item # dict_set key v items)"

subsection \<open>A small environment for concrete runs\<close>

text \<open>
  An interpreter that knows the outcome of a few programs: the empty program does
  nothing; \<^verbatim>\<open>raise Exception.__base__()\<close> raises a \<^verbatim>\<open>BaseException\<close>;
  \<^verbatim>\<open>clients.drop(clients.index, inplace=True)\<close> empties the DataFrame bound to
  \<^verbatim>\<open>clients\<close>; \<^verbatim>\<open>__builtins__['open'] = len\<close> stores the value of \<^verbatim>\<open>len\<close> under
  \<^verbatim>\<open>open\<close> in the dictionary bound to \<^verbatim>\<open>__builtins__\<close>; \<^verbatim>\<open>x = 1\<close> binds \<open>x\<close>;
  \<^verbatim>\<open>result = 1/0\<close> raises \<^verbatim>\<open>ZeroDivisionError\<close>; any other text is reported as a syntax
  error.
\<close>

definition demo_exec :: "string \<Rightarrow> (string \<rightharpoonup> pyval) \<Rightarrow> heap \<Rightarrow> exec_outcome \<times> heap" where
  "demo_exec code_text ns h =
     (if code_text = [] then (Finished ns, h)
      else if code_text = ''raise Exception.__base__()''
        then (Raised (PyExc BaseExceptionOnly ''BaseException()''), h)
      else if code_text = ''clients.drop(clients.index, inplace=True)''
        then (Finished ns,
              case ns ''clients'' of
                Some (DataFrame a) \<Rightarrow> h\<lparr>objs := (objs h)(a \<mapsto> [])\<rparr>
              | _ \<Rightarrow> h)
      else if code_text = ''__builtins__['open'] = len''
        then (case (ns ''__builtins__'', lookup_name ns h ''len'') of
                (Some SafeBuiltinsRef, Some v) \<Rightarrow>
                  (Finished ns, h\<lparr>safe_builtins := dict_set ''open'' v (safe_builtins h)\<rparr>)
              | _ \<Rightarrow> (Raised (PyExc ExceptionClass ''NameError()''), h))
      else if code_text = ''x = 1'' then (Finished (ns(''x'' \<mapsto> PyObject ''1'')), h)
      else if code_text = ''result = 1/0''
        then (Raised (PyExc ExceptionClass ''ZeroDivisionError('division by zero')''), h)
      else (Raised (PyExc ExceptionClass ''SyntaxError('invalid syntax')''), h))"

text \<open>
  The modules of this environment have one attribute each: \<^verbatim>\<open>__builtins__\<close>, the
  dictionary of the interpreter's builtins that every module loaded from Python
  source carries, here with the entries \<^verbatim>\<open>open\<close>, \<^verbatim>\<open>__import__\<close> and \<^verbatim>\<open>len\<close>.
\<close>

definition demo_module_getattr :: "string \<Rightarrow> string \<Rightarrow> pyval option" where
  "demo_module_getattr m attr =
     (if m \<in> {''pandas'', ''numpy'', ''datetime''} \<and> attr = ''__builtins__''
      then Some (PyDict [(''open'', PyBuiltin ''open''),
                         (''__import__'', PyBuiltin ''__import__''),
                         (''len'', PyBuiltin ''len'')])
      else None)"

definition demo_env :: env where
  "demo_env =
     \<lparr>chat_completion = (\<lambda>m msgs. Inr ''result = 1/0''),
      py_exec = demo_exec,
      format_exc =
        (\<lambda>x. ''Traceback (most recent call last):\<newline>'' @ repr_of x @ ''\<newline>''),
      builtins_hasattr = (\<lambda>name. True),
      module_getattr = demo_module_getattr,
      df_to_string = concat \<circ> map (\<lambda>row. concat row @ ''\<newline>''),
      series_to_string = concat,
      py_str = (\<lambda>v. case v of PyStr s \<Rightarrow> s | PyObject s \<Rightarrow> s | _ \<Rightarrow> ''None'')\<rparr>"


definition demo_pipeline :: pipeline where
  "demo_pipeline =
     \<lparr>model = ''llama-3.3-70b-versatile'',
      dfs = \<lparr>clients = 0, invoices = 1, line_items = 2\<rparr>,
      schema = ''=== DATABASE SCHEMA ===''\<rparr>"

definition demo_state :: state where
  "demo_state =
     \<lparr>mem = \<lparr>objs = [0 \<mapsto> [[''C1'', ''Acme Corp'']], 1 \<mapsto> [[''I1001'', ''C1'']],
                       2 \<mapsto> [[''L1'', ''I1001'']]],
              next_addr = 3,
              safe_builtins = SAFE_BUILTINS demo_env\<rparr>,
      calls = []\<rparr>"

section \<open>The history distiller pairs adjacent user and assistant messages\<close>

lemma paired_turns_short [simp]: "paired_turns [] = []" "paired_turns [m] = []"
  by (simp_all add: paired_turns_def adjacent_pairs_def)

lemma paired_turns_Cons2:
  "paired_turns (u # a # rest) =
     (if is_exchange (u, a) then make_turn u a # paired_turns (a # rest)
      else paired_turns (a # rest))"
  by (simp add: paired_turns_def adjacent_pairs_def)

lemma paired_turns_skip:
  "role a \<noteq> ''user'' \<Longrightarrow> paired_turns (a # rest) = paired_turns rest"
  by (cases rest) (simp_all add: paired_turns_def adjacent_pairs_def is_exchange_def)

text \<open>
  The loop invariant: from index \<open>i\<close> on, the loop appends the exchanges of the rest
  of the transcript to what it has collected.
\<close>

lemma build_history_suffix:
  "build_history msgs i acc = acc @ paired_turns (drop i msgs)"
proof (induction msgs i acc rule: build_history.induct)
  case (1 msgs i acc)
  show ?case
  proof (cases "i + 1 < length msgs")
    case False
    then have "length (drop i msgs) \<le> 1" by simp
    then have "drop i msgs = [] \<or> (\<exists>m. drop i msgs = [m])"
      by (cases "drop i msgs") auto
    with False show ?thesis
      by (subst build_history.simps) auto
  next
    case True
    then have d: "drop i msgs = msgs ! i # msgs ! (i + 1) # drop (i + 2) msgs"
      by (metis Cons_nth_drop_Suc Suc_eq_plus1 Suc_lessD add_2_eq_Suc')
    show ?thesis
    proof (cases "role (msgs ! i) = ''user'' \<and> role (msgs ! (i + 1)) = ''assistant''")
      case yes: True
      then have "role (msgs ! (i + 1)) \<noteq> ''user''" by simp
      then have "paired_turns (msgs ! (i + 1) # drop (i + 2) msgs)
                 = paired_turns (drop (i + 2) msgs)"
        by (rule paired_turns_skip)
      with yes True d "1.IH"(1) show ?thesis
        by (subst build_history.simps) (simp add: paired_turns_Cons2 is_exchange_def)
    next
      case no: False
      have "drop (i + 1) msgs = msgs ! (i + 1) # drop (i + 2) msgs"
        using True by (metis Cons_nth_drop_Suc Suc_eq_plus1 add_2_eq_Suc')
      with no True d "1.IH"(2) show ?thesis
        by (subst build_history.simps) (auto simp add: paired_turns_Cons2 is_exchange_def)
    qed
  qed
qed

text \<open>
  Claim C6. For every transcript, the distilled history is exactly the list of adjacent
  (user, assistant) pairs of the transcript, in transcript order, each turn carrying
  the assistant message's code and data; a user message that is not directly followed
  by an assistant message gives no turn. In particular the transcript
  \<open>[Q1, A1, Q2, A2, Q3]\<close> gives the two turns \<open>(Q1, A1)\<close> and \<open>(Q2, A2)\<close> and leaves
  \<open>Q3\<close> out.
\<close>

theorem distill_history_pairs:
  "distill_history msgs = paired_turns msgs \<and>
   distill_history
     [user_msg q1, assistant_msg a1 c1 d1, user_msg q2, assistant_msg a2 c2 d2, user_msg q3]
   = [\<lparr>question = q1, answer = a1, code = c1, data = Some d1\<rparr>,
      \<lparr>question = q2, answer = a2, code = c2, data = Some d2\<rparr>]"
proof
  show general: "distill_history msgs = paired_turns msgs" for msgs
    by (simp add: distill_history_def build_history_suffix)
  show "distill_history
     [user_msg q1, assistant_msg a1 c1 d1, user_msg q2, assistant_msg a2 c2 d2, user_msg q3]
   = [\<lparr>question = q1, answer = a1, code = c1, data = Some d1\<rparr>,
      \<lparr>question = q2, answer = a2, code = c2, data = Some d2\<rparr>]"
    by (simp add: general paired_turns_def adjacent_pairs_def is_exchange_def
        user_msg_def assistant_msg_def make_turn_def get_or_empty_def)
qed

theorem distill_history_pairs_witness:
  "distill_history
     [user_msg ''Q1'', assistant_msg ''A1'' ''c1'' ''d1'', assistant_msg ''A1b'' ''x'' ''y'',
      user_msg ''Q2'', user_msg ''Q3'', assistant_msg ''A3'' ''c3'' ''d3'', user_msg ''Q4'']
   = [\<lparr>question = ''Q1'', answer = ''A1'', code = ''c1'', data = Some ''d1''\<rparr>,
      \<lparr>question = ''Q3'', answer = ''A3'', code = ''c3'', data = Some ''d3''\<rparr>]"
  using distill_history_pairs
    [of "[user_msg ''Q1'', assistant_msg ''A1'' ''c1'' ''d1'', assistant_msg ''A1b'' ''x'' ''y'',
      user_msg ''Q2'', user_msg ''Q3'', assistant_msg ''A3'' ''c3'' ''d3'', user_msg ''Q4'']"]
  by (simp add: paired_turns_def adjacent_pairs_def is_exchange_def
      user_msg_def assistant_msg_def make_turn_def get_or_empty_def)


section \<open>The sanitizer\<close>

text \<open>A text in which the pattern matches nowhere is returned as it is.\<close>

lemma import_sub_no_match:
  "no_import_match prev s \<Longrightarrow> import_sub prev s = s"
  by (induction s arbitrary: prev) auto

lemma sanitize_code_unchanged:
  "no_import_match None code_text \<Longrightarrow> sanitize_code code_text = code_text"
  by (simp add: sanitize_code_def import_sub_no_match)

text \<open>
  Claim C1. The sanitizer is to remove every import line whole. On the two-line
  fragment below it removes the keyword \<^verbatim>\<open>import\<close> and the space after it only: the rest
  of the import line stays in the output.
\<close>

theorem sanitize_code_keeps_import_remainder:
  "sanitize_code ''import pandas as pd\<newline>result = clients.head()''
     = ''pandas as pd\<newline>result = clients.head()''"
  by code_simp

text \<open>
  Claim C7. The sanitizer is to be idempotent. What it leaves of the line
  \<^verbatim>\<open>import import os\<close> is again matched by the pattern, so a second run changes the
  output of the first.
\<close>

theorem sanitize_code_not_idempotent:
  "sanitize_code ''import import os'' = ''import os'' \<and>
   sanitize_code (sanitize_code ''import import os'') = ''os''"
  by code_simp


section \<open>The orchestrator without budget\<close>

text \<open>
  Claim C10. With a retry budget of 0 or less, \<^verbatim>\<open>ask\<close> returns the apology with empty
  code, empty data and no error, and makes no call: the state, with its record of
  completion and execution calls, is the one it was given.
\<close>

theorem ask_without_budget:
  "max_retries \<le> 0 \<Longrightarrow>
   ask e p question_text history max_retries s =
     (Inr \<lparr>res_answer = apology, res_code = [], res_data = [], res_error = None\<rparr>, s)"
  by (simp add: ask_def)

theorem ask_without_budget_witness:
  "ask demo_env demo_pipeline ''List all clients'' None 0 demo_state =
     (Inr \<lparr>res_answer = apology, res_code = [], res_data = [], res_error = None\<rparr>, demo_state)
   \<and> ask demo_env demo_pipeline ''List all clients'' (Some []) (- 3) demo_state =
     (Inr \<lparr>res_answer = apology, res_code = [], res_data = [], res_error = None\<rparr>, demo_state)"
  using ask_without_budget [of 0 demo_env demo_pipeline "''List all clients''" None demo_state]
    ask_without_budget [of "- 3" demo_env demo_pipeline "''List all clients''" "Some []" demo_state]
  by simp

section \<open>Execution results\<close>

text \<open>
  Claim C4. When the evaluation of the sanitized code finishes and the namespace it
  leaves has no binding for \<^verbatim>\<open>result\<close>, the execution reports no error and returns
  the placeholder string.
\<close>

theorem execute_code_placeholder:
  assumes "py_exec e (sanitize_code code_text) (fst (make_namespace p (mem s)))
             (snd (make_namespace p (mem s))) = (Finished ns', h')"
      and "ns' ''result'' = None"
  shows "fst (execute_code e p code_text s) = Inr (PyStr ''No `result` variable was set.'', None)"
  using assms by (simp add: execute_code_def Let_def split_beta)

lemma sanitize_code_assignment: "sanitize_code ''x = 1'' = ''x = 1''"
  by code_simp

theorem execute_code_placeholder_witness:
  "fst (execute_code demo_env demo_pipeline ''x = 1'' demo_state)
     = Inr (PyStr ''No `result` variable was set.'', None)"
proof -
  let ?ns = "fst (make_namespace demo_pipeline (mem demo_state))"
  let ?h = "snd (make_namespace demo_pipeline (mem demo_state))"
  have run: "py_exec demo_env (sanitize_code ''x = 1'') ?ns ?h
               = (Finished (?ns(''x'' \<mapsto> PyObject ''1'')), ?h)"
    by (simp add: sanitize_code_assignment demo_env_def demo_exec_def)
  have unset: "(?ns(''x'' \<mapsto> PyObject ''1'')) ''result'' = None"
    by (simp add: make_namespace_def df_copy_def)
  show ?thesis
    by (rule execute_code_placeholder [OF run unset])
qed










section \<open>The data preview of the code-synthesis prompt\<close>

lemma history_messages_append:
  "history_messages (xs @ ys) = history_messages xs @ history_messages ys"
  by (induction xs) simp_all

text \<open>
  Claim C8. For every turn of the history, the code-synthesis prompt contains the
  messages of that turn. When the turn's data excerpt is longer than 2000 characters,
  the third message holds its first 2000 characters followed by the truncation marker;
  when the excerpt is not empty and at most 2000 characters long, the third message
  holds the excerpt whole and no marker; an empty excerpt adds no third message.
\<close>

theorem preview_truncated_at_bound:
  assumes "t \<in> set history" and "get_or_empty (data t) = d"
  shows "(2000 < length d \<longrightarrow>
            turn_messages t =
              [Message ''user'' (question t), Message ''assistant'' (code t),
               Message ''user''
                 (''[Code returned:\<newline>```\<newline>'' @ take 2000 d @
                  ''\<newline>... (truncated)'' @ ''\<newline>```]'')]) \<and>
         (d \<noteq> [] \<and> length d \<le> 2000 \<longrightarrow>
            turn_messages t =
              [Message ''user'' (question t), Message ''assistant'' (code t),
               Message ''user'' (''[Code returned:\<newline>```\<newline>'' @ d @ ''\<newline>```]'')]) \<and>
         (d = [] \<longrightarrow>
            turn_messages t =
              [Message ''user'' (question t), Message ''assistant'' (code t)]) \<and>
         (\<exists>before after.
            code_gen_messages schema_text question_text history =
              before @ turn_messages t @ after)"
proof -
  from assms(1) obtain xs ys where "history = xs @ t # ys"
    by (auto simp: in_set_conv_decomp)
  then have "code_gen_messages schema_text question_text history =
      ([Message ''system'' (CODE_GEN_SYSTEM schema_text)] @ history_messages xs) @
      turn_messages t @ (history_messages ys @ [Message ''user'' question_text])"
    by (simp add: code_gen_messages_def history_messages_append)
  then have "\<exists>before after.
      code_gen_messages schema_text question_text history = before @ turn_messages t @ after"
    by blast
  with assms(2) show ?thesis
    by (auto simp: turn_messages_def Let_def)
qed

theorem preview_truncated_at_bound_witness:
  "turn_messages \<lparr>question = ''q1'', answer = ''a1'', code = ''c1'',
                   data = Some (replicate 2001 CHR ''7'')\<rparr>
     = [Message ''user'' ''q1'', Message ''assistant'' ''c1'',
        Message ''user''
          (''[Code returned:\<newline>```\<newline>'' @ replicate 2000 CHR ''7'' @
           ''\<newline>... (truncated)'' @ ''\<newline>```]'')] \<and>
   turn_messages \<lparr>question = ''q2'', answer = ''a2'', code = ''c2'', data = Some ''42''\<rparr>
     = [Message ''user'' ''q2'', Message ''assistant'' ''c2'',
        Message ''user'' (''[Code returned:\<newline>```\<newline>'' @ ''42'' @ ''\<newline>```]'')] \<and>
   turn_messages \<lparr>question = ''q3'', answer = ''a3'', code = ''c3'', data = None\<rparr>
     = [Message ''user'' ''q3'', Message ''assistant'' ''c3'']"
  using
    preview_truncated_at_bound
      [of "\<lparr>question = ''q1'', answer = ''a1'', code = ''c1'',
            data = Some (replicate 2001 CHR ''7'')\<rparr>"
          "[\<lparr>question = ''q1'', answer = ''a1'', code = ''c1'',
             data = Some (replicate 2001 CHR ''7'')\<rparr>]"
          "replicate 2001 CHR ''7''"]
    preview_truncated_at_bound
      [of "\<lparr>question = ''q2'', answer = ''a2'', code = ''c2'', data = Some ''42''\<rparr>"
          "[\<lparr>question = ''q2'', answer = ''a2'', code = ''c2'', data = Some ''42''\<rparr>]"
          "''42''"]
    preview_truncated_at_bound
      [of "\<lparr>question = ''q3'', answer = ''a3'', code = ''c3'', data = None\<rparr>"
          "[\<lparr>question = ''q3'', answer = ''a3'', code = ''c3'', data = None\<rparr>]"
          "[]"]
  by (simp add: get_or_empty_def)



section \<open>The names bound in the execution environment\<close>

lemma SAFE_BUILTINS_names:
  "set (map fst (SAFE_BUILTINS e)) \<subseteq> set safe_builtin_names"
  by (auto simp: SAFE_BUILTINS_def)

lemma SAFE_BUILTINS_values:
  "map snd (SAFE_BUILTINS e) = map PyBuiltin (map fst (SAFE_BUILTINS e))"
  by (simp add: SAFE_BUILTINS_def comp_def)

lemma namespace_dom:
  "dom (fst (make_namespace p h)) =
     {''__builtins__'', ''pd'', ''np'', ''datetime'', ''clients'', ''invoices'', ''line_items''}"
  by (auto simp: make_namespace_def df_copy_def split_beta Let_def)

lemma namespace_values:
  "fst (make_namespace p h) ''__builtins__'' = Some SafeBuiltinsRef"
  "fst (make_namespace p h) ''pd'' = Some (PyModule ''pandas'')"
  "fst (make_namespace p h) ''np'' = Some (PyModule ''numpy'')"
  "fst (make_namespace p h) ''datetime'' = Some (PyModule ''datetime'')"
  "fst (make_namespace p h) ''clients'' = Some (DataFrame (next_addr h))"
  "fst (make_namespace p h) ''invoices'' = Some (DataFrame (next_addr h + 1))"
  "fst (make_namespace p h) ''line_items'' = Some (DataFrame (next_addr h + 2))"
  by (simp_all add: make_namespace_def df_copy_def split_beta Let_def)

lemma make_namespace_safe_builtins:
  "safe_builtins (snd (make_namespace p h)) = safe_builtins h"
  by (simp add: make_namespace_def df_copy_def split_beta Let_def)

lemma capability_names_not_safe:
  "''open'' \<notin> set safe_builtin_names" "''__import__'' \<notin> set safe_builtin_names"
  "''eval'' \<notin> set safe_builtin_names" "''exec'' \<notin> set safe_builtin_names"
  "''compile'' \<notin> set safe_builtin_names"
  by (simp_all add: safe_builtin_names_def)

lemma capability_names_not_bound:
  "fst (make_namespace p h) ''open'' = None" "fst (make_namespace p h) ''__import__'' = None"
  "fst (make_namespace p h) ''eval'' = None" "fst (make_namespace p h) ''exec'' = None"
  "fst (make_namespace p h) ''compile'' = None"
  by (simp_all add: make_namespace_def df_copy_def split_beta Let_def)

text \<open>A name bound neither in the namespace nor in the shared dictionary does not resolve.\<close>

lemma lookup_name_unbound:
  assumes "fst (make_namespace p h) name = None"
      and "name \<notin> set (map fst (safe_builtins h))"
  shows "lookup_name (fst (make_namespace p h)) (snd (make_namespace p h)) name = None"
proof -
  from assms(2) have "map_of (safe_builtins h) name = None"
    by (simp add: map_of_eq_None_iff)
  with assms(1) show ?thesis
    by (simp add: lookup_name_def getitem_value_def namespace_values
        make_namespace_safe_builtins)
qed

text \<open>
  Claim C9, as amended. The namespace of every execution binds exactly seven names:
  \<^verbatim>\<open>__builtins__\<close> to the module-level dictionary \<^verbatim>\<open>_SAFE_BUILTINS\<close> itself, which
  building the namespace leaves as it is; \<^verbatim>\<open>pd\<close>, \<^verbatim>\<open>np\<close> and \<^verbatim>\<open>datetime\<close> to the pandas,
  numpy and datetime modules; and the three dataset names to DataFrames allocated for
  this execution. \<^verbatim>\<open>_SAFE_BUILTINS\<close> is created with keys of the enumerated list only,
  each bound to the builtin of that name. In a store where that dictionary has the
  items it was created with, none of the names \<^verbatim>\<open>open\<close>, \<^verbatim>\<open>__import__\<close>, \<^verbatim>\<open>eval\<close>,
  \<^verbatim>\<open>exec\<close>, \<^verbatim>\<open>compile\<close> resolves in the executed code.
\<close>

theorem namespace_bindings:
  "dom (fst (make_namespace p h)) =
     {''__builtins__'', ''pd'', ''np'', ''datetime'', ''clients'', ''invoices'', ''line_items''} \<and>
   fst (make_namespace p h) ''__builtins__'' = Some SafeBuiltinsRef \<and>
   safe_builtins (snd (make_namespace p h)) = safe_builtins h \<and>
   fst (make_namespace p h) ''pd'' = Some (PyModule ''pandas'') \<and>
   fst (make_namespace p h) ''np'' = Some (PyModule ''numpy'') \<and>
   fst (make_namespace p h) ''datetime'' = Some (PyModule ''datetime'') \<and>
   fst (make_namespace p h) ''clients'' = Some (DataFrame (next_addr h)) \<and>
   fst (make_namespace p h) ''invoices'' = Some (DataFrame (next_addr h + 1)) \<and>
   fst (make_namespace p h) ''line_items'' = Some (DataFrame (next_addr h + 2)) \<and>
   set (map fst (SAFE_BUILTINS e)) \<subseteq> set safe_builtin_names \<and>
   map snd (SAFE_BUILTINS e) = map PyBuiltin (map fst (SAFE_BUILTINS e)) \<and>
   (safe_builtins h = SAFE_BUILTINS e \<longrightarrow>
      lookup_name (fst (make_namespace p h)) (snd (make_namespace p h)) ''open'' = None \<and>
      lookup_name (fst (make_namespace p h)) (snd (make_namespace p h)) ''__import__'' = None \<and>
      lookup_name (fst (make_namespace p h)) (snd (make_namespace p h)) ''eval'' = None \<and>
      lookup_name (fst (make_namespace p h)) (snd (make_namespace p h)) ''exec'' = None \<and>
      lookup_name (fst (make_namespace p h)) (snd (make_namespace p h)) ''compile'' = None)"
proof -
  have absent: "name \<notin> set (map fst (SAFE_BUILTINS e))"
    if "name \<notin> set safe_builtin_names" for name
    using that SAFE_BUILTINS_names [of e] by blast
  have unresolved:
    "lookup_name (fst (make_namespace p h)) (snd (make_namespace p h)) name = None"
    if "safe_builtins h = SAFE_BUILTINS e" and "fst (make_namespace p h) name = None"
      and "name \<notin> set safe_builtin_names" for name
    using that absent [of name] by (simp add: lookup_name_unbound)
  have five: "safe_builtins h = SAFE_BUILTINS e \<longrightarrow>
      lookup_name (fst (make_namespace p h)) (snd (make_namespace p h)) ''open'' = None \<and>
      lookup_name (fst (make_namespace p h)) (snd (make_namespace p h)) ''__import__'' = None \<and>
      lookup_name (fst (make_namespace p h)) (snd (make_namespace p h)) ''eval'' = None \<and>
      lookup_name (fst (make_namespace p h)) (snd (make_namespace p h)) ''exec'' = None \<and>
      lookup_name (fst (make_namespace p h)) (snd (make_namespace p h)) ''compile'' = None"
    by (intro impI conjI unresolved capability_names_not_bound capability_names_not_safe)
  from namespace_dom [of p h] namespace_values [of p h] make_namespace_safe_builtins [of p h]
    SAFE_BUILTINS_names [of e] SAFE_BUILTINS_values [of e] five
  show ?thesis by (intro conjI)
qed

theorem namespace_bindings_witness:
  "dom (fst (make_namespace demo_pipeline (mem demo_state))) =
     {''__builtins__'', ''pd'', ''np'', ''datetime'', ''clients'', ''invoices'', ''line_items''} \<and>
   fst (make_namespace demo_pipeline (mem demo_state)) ''clients'' = Some (DataFrame 3) \<and>
   lookup_name (fst (make_namespace demo_pipeline (mem demo_state)))
     (snd (make_namespace demo_pipeline (mem demo_state))) ''open'' = None \<and>
   lookup_name (fst (make_namespace demo_pipeline (mem demo_state)))
     (snd (make_namespace demo_pipeline (mem demo_state))) ''__import__'' = None \<and>
   lookup_name (fst (make_namespace demo_pipeline (mem demo_state)))
     (snd (make_namespace demo_pipeline (mem demo_state))) ''eval'' = None \<and>
   lookup_name (fst (make_namespace demo_pipeline (mem demo_state)))
     (snd (make_namespace demo_pipeline (mem demo_state))) ''exec'' = None \<and>
   lookup_name (fst (make_namespace demo_pipeline (mem demo_state)))
     (snd (make_namespace demo_pipeline (mem demo_state))) ''compile'' = None"
proof -
  have created: "safe_builtins (mem demo_state) = SAFE_BUILTINS demo_env"
    and pointer: "next_addr (mem demo_state) = 3"
    by (simp_all add: demo_state_def)
  from namespace_bindings [of demo_pipeline "mem demo_state" demo_env] created pointer
  show ?thesis by simp
qed

text \<open>
  The claim as stated does not hold of what the bound values give, nor of every
  execution. In the demo environment the expression \<^verbatim>\<open>pd.__builtins__['open']\<close> is
  the builtin \<^verbatim>\<open>open\<close>; and after an execution of \<^verbatim>\<open>__builtins__['open'] = len\<close>, which
  writes into the shared dictionary, the name \<^verbatim>\<open>open\<close> resolves in the next execution.
\<close>

lemma sanitize_code_set_open:
  "sanitize_code ''__builtins__['open'] = len'' = ''__builtins__['open'] = len''"
  by code_simp

lemma demo_builtins_len: "map_of (SAFE_BUILTINS demo_env) ''len'' = Some (PyBuiltin ''len'')"
  by (simp add: SAFE_BUILTINS_def demo_env_def safe_builtin_names_def)

lemma map_of_dict_set: "map_of (dict_set key v items) key = Some v"
  by (induction items) auto

lemma demo_run_set_open:
  "safe_builtins (mem (snd (execute_code demo_env demo_pipeline
                              ''__builtins__['open'] = len'' demo_state)))
     = dict_set ''open'' (PyBuiltin ''len'') (SAFE_BUILTINS demo_env)"
proof -
  let ?ns = "fst (make_namespace demo_pipeline (mem demo_state))"
  let ?h = "snd (make_namespace demo_pipeline (mem demo_state))"
  have len: "lookup_name ?ns ?h ''len'' = Some (PyBuiltin ''len'')"
    by (simp add: lookup_name_def getitem_value_def namespace_values
        make_namespace_safe_builtins demo_builtins_len demo_state_def
        make_namespace_def df_copy_def)
  have "py_exec demo_env (sanitize_code ''__builtins__['open'] = len'') ?ns ?h
          = (Finished ?ns,
             ?h\<lparr>safe_builtins := dict_set ''open'' (PyBuiltin ''len'') (safe_builtins ?h)\<rparr>)"
    by (simp add: sanitize_code_set_open demo_env_def demo_exec_def len namespace_values)
  then show ?thesis
    by (simp add: execute_code_def Let_def split_beta make_namespace_safe_builtins
        demo_state_def)
qed

theorem namespace_capabilities_reachable:
  "attr_item demo_env (fst (make_namespace demo_pipeline (mem demo_state)))
     (snd (make_namespace demo_pipeline (mem demo_state))) ''pd'' ''__builtins__'' ''open''
     = Some (PyBuiltin ''open'') \<and>
   lookup_name
     (fst (make_namespace demo_pipeline
             (mem (snd (execute_code demo_env demo_pipeline
                          ''__builtins__['open'] = len'' demo_state)))))
     (snd (make_namespace demo_pipeline
             (mem (snd (execute_code demo_env demo_pipeline
                          ''__builtins__['open'] = len'' demo_state)))))
     ''open''
     = Some (PyBuiltin ''len'')"
proof
  show "attr_item demo_env (fst (make_namespace demo_pipeline (mem demo_state)))
     (snd (make_namespace demo_pipeline (mem demo_state))) ''pd'' ''__builtins__'' ''open''
     = Some (PyBuiltin ''open'')"
    by (simp add: attr_item_def lookup_name_def namespace_values getattr_value_def
        getitem_value_def demo_env_def demo_module_getattr_def)
  show "lookup_name
     (fst (make_namespace demo_pipeline
             (mem (snd (execute_code demo_env demo_pipeline
                          ''__builtins__['open'] = len'' demo_state)))))
     (snd (make_namespace demo_pipeline
             (mem (snd (execute_code demo_env demo_pipeline
                          ''__builtins__['open'] = len'' demo_state)))))
     ''open''
     = Some (PyBuiltin ''len'')"
    by (simp add: lookup_name_def capability_names_not_bound namespace_values
        getitem_value_def make_namespace_safe_builtins demo_run_set_open map_of_dict_set)
qed

section \<open>Executions work on copies of the datasets\<close>

lemma make_namespace_store:
  "next_addr (snd (make_namespace p h)) = next_addr h + 3"
  "a < next_addr h \<Longrightarrow> objs (snd (make_namespace p h)) a = objs h a"
  by (simp_all add: make_namespace_def df_copy_def split_beta Let_def)

lemma make_namespace_copies:
  assumes "heap_ok p h"
  shows "objs (snd (make_namespace p h)) (next_addr h) = objs h (clients (dfs p))"
    and "objs (snd (make_namespace p h)) (next_addr h + 1) = objs h (invoices (dfs p))"
    and "objs (snd (make_namespace p h)) (next_addr h + 2) = objs h (line_items (dfs p))"
  using assms by (simp_all add: make_namespace_def df_copy_def split_beta Let_def heap_ok_def)

lemma make_namespace_ref_cases:
  "fst (make_namespace p h) k = Some (DataFrame a) \<Longrightarrow>
     a = next_addr h \<or> a = next_addr h + 1 \<or> a = next_addr h + 2"
  by (simp add: make_namespace_def df_copy_def split_beta Let_def split: if_splits)

text \<open>The DataFrames of a namespace are allocated when it is made.\<close>

lemma make_namespace_refs:
  assumes "a \<in> refs (fst (make_namespace p h))"
  shows "next_addr h \<le> a"
proof -
  from assms obtain k where "fst (make_namespace p h) k = Some (DataFrame a)"
    by (auto simp: refs_def ran_def)
  from make_namespace_ref_cases [OF this] show ?thesis by arith
qed

lemma dataset_view_canonical:
  assumes "heap_ok p h"
  shows "dataset_view p h ''clients'' = objs h (clients (dfs p))"
    and "dataset_view p h ''invoices'' = objs h (invoices (dfs p))"
    and "dataset_view p h ''line_items'' = objs h (line_items (dfs p))"
  using make_namespace_copies [OF assms]
  by (simp_all add: dataset_view_def namespace_values)

lemma dataset_view_other:
  "name \<notin> {''clients'', ''invoices'', ''line_items''} \<Longrightarrow> dataset_view p h name = None"
  by (simp add: dataset_view_def make_namespace_def df_copy_def split_beta Let_def)

lemma execute_code_mem:
  "mem (snd (execute_code e p code_text s)) =
     snd (py_exec e (sanitize_code code_text) (fst (make_namespace p (mem s)))
            (snd (make_namespace p (mem s))))"
  by (simp add: execute_code_def Let_def split_beta split: exec_outcome.splits exc_class.splits)

lemma dataset_view_eq:
  assumes "heap_ok p h" and "heap_ok p h'"
    and "objs h' (clients (dfs p)) = objs h (clients (dfs p))"
    and "objs h' (invoices (dfs p)) = objs h (invoices (dfs p))"
    and "objs h' (line_items (dfs p)) = objs h (line_items (dfs p))"
  shows "dataset_view p h' = dataset_view p h"
proof
  fix name
  show "dataset_view p h' name = dataset_view p h name"
  proof (cases "name \<in> {''clients'', ''invoices'', ''line_items''}")
    case True
    then consider "name = ''clients''" | "name = ''invoices''" | "name = ''line_items''"
      by blast
    then show ?thesis
      using assms by cases (simp_all only: dataset_view_canonical)
  next
    case False
    then show ?thesis by (simp add: dataset_view_other)
  qed
qed

text \<open>
  Claim C3. Take an execution that starts with the canonical datasets below the
  allocation pointer and whose evaluation mutates no DataFrame but those of its own
  namespace, its copies. Whatever it does to them, the rows of the three canonical
  datasets are afterwards what they were; the store is again one with the canonical
  datasets below the allocation pointer, so the same holds of the next execution; and
  what an execution finds under \<^verbatim>\<open>clients\<close>, \<^verbatim>\<open>invoices\<close> and \<^verbatim>\<open>line_items\<close> are the rows of
  the canonical datasets, after the execution as before it.
\<close>

theorem executions_get_independent_copies:
  assumes "heap_ok p (mem s)"
      and "mutates_only_namespace e (sanitize_code code_text)
             (fst (make_namespace p (mem s))) (snd (make_namespace p (mem s)))"
  shows "objs (mem (snd (execute_code e p code_text s))) (clients (dfs p))
           = objs (mem s) (clients (dfs p)) \<and>
         objs (mem (snd (execute_code e p code_text s))) (invoices (dfs p))
           = objs (mem s) (invoices (dfs p)) \<and>
         objs (mem (snd (execute_code e p code_text s))) (line_items (dfs p))
           = objs (mem s) (line_items (dfs p)) \<and>
         heap_ok p (mem (snd (execute_code e p code_text s))) \<and>
         dataset_view p (mem (snd (execute_code e p code_text s))) = dataset_view p (mem s) \<and>
         dataset_view p (mem s) ''clients'' = objs (mem s) (clients (dfs p)) \<and>
         dataset_view p (mem s) ''invoices'' = objs (mem s) (invoices (dfs p)) \<and>
         dataset_view p (mem s) ''line_items'' = objs (mem s) (line_items (dfs p))"
proof -
  let ?ns = "fst (make_namespace p (mem s))"
  let ?h = "snd (make_namespace p (mem s))"
  let ?s' = "snd (execute_code e p code_text s)"
  have kept: "objs (mem ?s') a = objs (mem s) a" if "a < next_addr (mem s)" for a
  proof -
    from that have "a < next_addr ?h"
      by (simp add: make_namespace_store)
    moreover from that have "a \<notin> refs ?ns"
      using make_namespace_refs [of a p "mem s"] by auto
    ultimately have "objs (snd (py_exec e (sanitize_code code_text) ?ns ?h)) a = objs ?h a"
      using assms(2) unfolding mutates_only_namespace_def by blast
    with that show ?thesis
      by (simp add: execute_code_mem make_namespace_store)
  qed
  have "next_addr ?h \<le> next_addr (snd (py_exec e (sanitize_code code_text) ?ns ?h))"
    using assms(2) unfolding mutates_only_namespace_def by blast
  then have pointer: "next_addr (mem s) \<le> next_addr (mem ?s')"
    by (simp add: execute_code_mem make_namespace_store)
  from assms(1) have below: "clients (dfs p) < next_addr (mem s)"
    "invoices (dfs p) < next_addr (mem s)" "line_items (dfs p) < next_addr (mem s)"
    by (simp_all add: heap_ok_def)
  have c: "objs (mem ?s') (clients (dfs p)) = objs (mem s) (clients (dfs p))"
    and i: "objs (mem ?s') (invoices (dfs p)) = objs (mem s) (invoices (dfs p))"
    and l: "objs (mem ?s') (line_items (dfs p)) = objs (mem s) (line_items (dfs p))"
    using below by (simp_all add: kept)
  have ok: "heap_ok p (mem ?s')"
    using assms(1) pointer by (simp add: heap_ok_def)
  have v: "dataset_view p (mem ?s') = dataset_view p (mem s)"
    by (rule dataset_view_eq [OF assms(1) ok c i l])
  from c i l ok v dataset_view_canonical [OF assms(1)] show ?thesis
    by simp
qed

lemma demo_exec_frame:
  "a \<notin> refs ns \<Longrightarrow> objs (snd (demo_exec code_text ns h)) a = objs h a"
  "next_addr (snd (demo_exec code_text ns h)) = next_addr h"
  unfolding demo_exec_def refs_def ran_def
  by (auto split: option.splits pyval.splits)

lemma sanitize_code_drop:
  "sanitize_code ''clients.drop(clients.index, inplace=True)''
     = ''clients.drop(clients.index, inplace=True)''"
  by code_simp

lemma demo_run_drop:
  "objs (mem (snd (execute_code demo_env demo_pipeline
               ''clients.drop(clients.index, inplace=True)'' demo_state))) 3 = Some []"
  by (simp add: execute_code_mem sanitize_code_drop demo_env_def demo_exec_def
      namespace_values demo_state_def)

theorem executions_get_independent_copies_witness:
  "heap_ok demo_pipeline (mem demo_state) \<and>
   mutates_only_namespace demo_env
     (sanitize_code ''clients.drop(clients.index, inplace=True)'')
     (fst (make_namespace demo_pipeline (mem demo_state)))
     (snd (make_namespace demo_pipeline (mem demo_state))) \<and>
   objs (mem (snd (execute_code demo_env demo_pipeline
                     ''clients.drop(clients.index, inplace=True)'' demo_state))) 3 = Some [] \<and>
   objs (mem (snd (execute_code demo_env demo_pipeline
                     ''clients.drop(clients.index, inplace=True)'' demo_state))) 0
     = Some [[''C1'', ''Acme Corp'']] \<and>
   dataset_view demo_pipeline
     (mem (snd (execute_code demo_env demo_pipeline
                  ''clients.drop(clients.index, inplace=True)'' demo_state))) ''clients''
     = Some [[''C1'', ''Acme Corp'']]"
proof -
  let ?s' = "snd (execute_code demo_env demo_pipeline
                    ''clients.drop(clients.index, inplace=True)'' demo_state)"
  have ok: "heap_ok demo_pipeline (mem demo_state)"
    by (simp add: heap_ok_def demo_pipeline_def demo_state_def)
  have own: "mutates_only_namespace demo_env
     (sanitize_code ''clients.drop(clients.index, inplace=True)'')
     (fst (make_namespace demo_pipeline (mem demo_state)))
     (snd (make_namespace demo_pipeline (mem demo_state)))"
    by (simp add: mutates_only_namespace_def demo_env_def demo_exec_frame)
  note kept = executions_get_independent_copies [OF ok own]
  have canonical: "clients (dfs demo_pipeline) = 0"
    "objs (mem demo_state) 0 = Some [[''C1'', ''Acme Corp'']]"
    by (simp_all add: demo_pipeline_def demo_state_def)
  have emptied: "objs (mem ?s') 3 = Some []"
    by (rule demo_run_drop)
  from kept canonical have original: "objs (mem ?s') 0 = Some [[''C1'', ''Acme Corp'']]"
    by simp
  from kept canonical
  have seen: "dataset_view demo_pipeline (mem ?s') ''clients''
                = Some [[''C1'', ''Acme Corp'']]"
    by simp
  from ok own emptied original seen show ?thesis
    by blast
qed

section \<open>Retry exhaustion\<close>












end
